theory Spec2Isabelle
  imports Complex_Main "HOL-Library.Log_Nat"
begin

section \<open>JSON values and the JavaScript operations the pruner applies to them\<close>

text \<open>
  A transcript line is a string. The pruner of \<^verbatim>\<open>src/index.ts\<close> and the
  boundary detector of \<^verbatim>\<open>src/boundary-detector.ts\<close> look at a line only through
  \<^verbatim>\<open>JSON.parse\<close>, property reads on the parsed value, \<^verbatim>\<open>String.includes\<close> and
  \<^verbatim>\<open>JSON.stringify\<close>. The parsed value is a \<open>json\<close> value, defined below. An object is the list
  of its properties in insertion order, every key once. Numbers are integers: the transcript
  counters are integers, and a numeral with a fraction or an exponent is outside the fragment
  (\<^verbatim>\<open>JSON_parse\<close> rejects it). A character is one code unit below 256.
\<close>

datatype json = JNull | JBool bool | JNum int | JStr string
  | JArr "json list" | JObj "(string \<times> json) list"

subsection \<open>\<^verbatim>\<open>JSON.parse\<close>\<close>

datatype tok = TLBrace | TRBrace | TLBrack | TRBrack | TColon | TComma
  | TStr string | TNum int | TTrue | TFalse | TNull

datatype lexst = LStart | LStr string | LEsc string | LUni string "nat list"
  | LMinus | LZero bool | LNum bool nat | LWord string

definition is_ws :: "char \<Rightarrow> bool" where
  "is_ws c = (c = CHR '' '' \<or> c = CHR 0x09 \<or> c = CHR 0x0A \<or> c = CHR 0x0D)"

definition digit_val :: "char \<Rightarrow> nat option" where
  "digit_val c =
    (let n = of_char c :: nat in if 48 \<le> n \<and> n \<le> 57 then Some (n - 48) else None)"

definition hex_val :: "char \<Rightarrow> nat option" where
  "hex_val c = (let n = of_char c :: nat in
     if 48 \<le> n \<and> n \<le> 57 then Some (n - 48)
     else if 65 \<le> n \<and> n \<le> 70 then Some (n - 55)
     else if 97 \<le> n \<and> n \<le> 102 then Some (n - 87)
     else None)"

definition lex_start :: "char \<Rightarrow> (tok list \<times> lexst) option" where
  "lex_start c =
    (if is_ws c then Some ([], LStart)
     else if c = CHR ''{'' then Some ([TLBrace], LStart)
     else if c = CHR ''}'' then Some ([TRBrace], LStart)
     else if c = CHR ''['' then Some ([TLBrack], LStart)
     else if c = CHR '']'' then Some ([TRBrack], LStart)
     else if c = CHR '':'' then Some ([TColon], LStart)
     else if c = CHR '','' then Some ([TComma], LStart)
     else if c = CHR 0x22 then Some ([], LStr [])
     else if c = CHR ''-'' then Some ([], LMinus)
     else if c = CHR ''0'' then Some ([], LZero False)
     else (case digit_val c of Some d \<Rightarrow> Some ([], LNum False d)
           | None \<Rightarrow> if c \<in> set ''truefalsn'' then Some ([], LWord [c]) else None))"

definition num_tok :: "bool \<Rightarrow> nat \<Rightarrow> tok" where
  "num_tok neg n = TNum (if neg then - int n else int n)"

definition word_tok :: "string \<Rightarrow> tok option" where
  "word_tok w = (if w = ''true'' then Some TTrue else if w = ''false'' then Some TFalse
     else if w = ''null'' then Some TNull else None)"

definition then_start :: "tok \<Rightarrow> char \<Rightarrow> (tok list \<times> lexst) option" where
  "then_start t c = (case lex_start c of None \<Rightarrow> None | Some (ts, st) \<Rightarrow> Some (t # ts, st))"

text \<open>One character of input: the tokens it completes and the next lexer state.\<close>

fun lex_step :: "lexst \<Rightarrow> char \<Rightarrow> (tok list \<times> lexst) option" where
  "lex_step LStart c = lex_start c"
| "lex_step (LStr acc) c =
    (if c = CHR 0x22 then Some ([TStr acc], LStart)
     else if c = CHR 0x5C then Some ([], LEsc acc)
     else if (of_char c :: nat) < 32 then None
     else Some ([], LStr (acc @ [c])))"
| "lex_step (LEsc acc) c =
    (if c = CHR 0x22 \<or> c = CHR 0x5C \<or> c = CHR ''/'' then Some ([], LStr (acc @ [c]))
     else if c = CHR ''b'' then Some ([], LStr (acc @ [CHR 0x08]))
     else if c = CHR ''f'' then Some ([], LStr (acc @ [CHR 0x0C]))
     else if c = CHR ''n'' then Some ([], LStr (acc @ [CHR 0x0A]))
     else if c = CHR ''r'' then Some ([], LStr (acc @ [CHR 0x0D]))
     else if c = CHR ''t'' then Some ([], LStr (acc @ [CHR 0x09]))
     else if c = CHR ''u'' then Some ([], LUni acc [])
     else None)"
| "lex_step (LUni acc ds) c =
    (case hex_val c of None \<Rightarrow> None
     | Some d \<Rightarrow>
        if length ds < 3 then Some ([], LUni acc (ds @ [d]))
        else (let n = foldl (\<lambda>a x. 16 * a + x) 0 (ds @ [d])
              in if n < 256 then Some ([], LStr (acc @ [char_of n])) else None))"
| "lex_step LMinus c =
    (if c = CHR ''0'' then Some ([], LZero True)
     else (case digit_val c of Some d \<Rightarrow> Some ([], LNum True d) | None \<Rightarrow> None))"
| "lex_step (LZero neg) c =
    (case digit_val c of Some d \<Rightarrow> None | None \<Rightarrow> then_start (num_tok neg 0) c)"
| "lex_step (LNum neg n) c =
    (case digit_val c of Some d \<Rightarrow> Some ([], LNum neg (10 * n + d))
     | None \<Rightarrow> then_start (num_tok neg n) c)"
| "lex_step (LWord w) c =
    (if c \<in> set ''truefalsn'' then Some ([], LWord (w @ [c]))
     else (case word_tok w of None \<Rightarrow> None | Some t \<Rightarrow> then_start t c))"

fun lex_end :: "lexst \<Rightarrow> tok list option" where
  "lex_end LStart = Some []"
| "lex_end (LZero neg) = Some [num_tok neg 0]"
| "lex_end (LNum neg n) = Some [num_tok neg n]"
| "lex_end (LWord w) = map_option (\<lambda>t. [t]) (word_tok w)"
| "lex_end _ = None"

fun lex :: "lexst \<Rightarrow> string \<Rightarrow> tok list option" where
  "lex st [] = lex_end st"
| "lex st (c # cs) =
    (case lex_step st c of None \<Rightarrow> None
     | Some (ts, st') \<Rightarrow> (case lex st' cs of None \<Rightarrow> None | Some us \<Rightarrow> Some (ts @ us)))"

text \<open>
  The parser is a pushdown automaton over the tokens. A frame is an array or an object under
  construction; an object frame remembers the key whose value is being read. Assigning a key
  a second time keeps its place and replaces its value, as a JavaScript object does.
\<close>

datatype frame = FArr "json list" | FObj "(string \<times> json) list" "string option"

datatype pst = PValue bool | PKey bool | PColon | PAfter | PDone json

fun obj_set :: "string \<Rightarrow> json \<Rightarrow> (string \<times> json) list \<Rightarrow> (string \<times> json) list" where
  "obj_set k v [] = [(k, v)]"
| "obj_set k v ((k', v') # fs) = (if k = k' then (k, v) # fs else (k', v') # obj_set k v fs)"

fun deliver :: "json \<Rightarrow> frame list \<Rightarrow> (pst \<times> frame list) option" where
  "deliver v [] = Some (PDone v, [])"
| "deliver v (FArr xs # r) = Some (PAfter, FArr (xs @ [v]) # r)"
| "deliver v (FObj fs (Some k) # r) = Some (PAfter, FObj (obj_set k v fs) None # r)"
| "deliver v (FObj fs None # r) = None"

fun scalar :: "tok \<Rightarrow> json option" where
  "scalar (TStr s) = Some (JStr s)"
| "scalar (TNum n) = Some (JNum n)"
| "scalar TTrue = Some (JBool True)"
| "scalar TFalse = Some (JBool False)"
| "scalar TNull = Some JNull"
| "scalar _ = None"

definition close_arr :: "frame list \<Rightarrow> (pst \<times> frame list) option" where
  "close_arr stk = (case stk of FArr xs # r \<Rightarrow> deliver (JArr xs) r | _ \<Rightarrow> None)"

definition close_obj :: "frame list \<Rightarrow> (pst \<times> frame list) option" where
  "close_obj stk = (case stk of FObj fs None # r \<Rightarrow> deliver (JObj fs) r | _ \<Rightarrow> None)"

definition set_key :: "string \<Rightarrow> frame list \<Rightarrow> (pst \<times> frame list) option" where
  "set_key k stk =
    (case stk of FObj fs None # r \<Rightarrow> Some (PColon, FObj fs (Some k) # r) | _ \<Rightarrow> None)"

definition parse_value :: "bool \<Rightarrow> frame list \<Rightarrow> tok \<Rightarrow> (pst \<times> frame list) option" where
  "parse_value c stk t =
    (if t = TLBrack then Some (PValue True, FArr [] # stk)
     else if t = TLBrace then Some (PKey True, FObj [] None # stk)
     else if t = TRBrack then (if c then close_arr stk else None)
     else (case scalar t of None \<Rightarrow> None | Some v \<Rightarrow> deliver v stk))"

definition parse_key :: "bool \<Rightarrow> frame list \<Rightarrow> tok \<Rightarrow> (pst \<times> frame list) option" where
  "parse_key c stk t =
    (case t of TStr k \<Rightarrow> set_key k stk
     | TRBrace \<Rightarrow> (if c then close_obj stk else None)
     | _ \<Rightarrow> None)"

definition parse_after :: "frame list \<Rightarrow> tok \<Rightarrow> (pst \<times> frame list) option" where
  "parse_after stk t =
    (case stk of
       FArr xs # r \<Rightarrow>
         (if t = TComma then Some (PValue False, stk)
          else if t = TRBrack then close_arr stk else None)
     | FObj fs k # r \<Rightarrow>
         (if t = TComma then Some (PKey False, stk)
          else if t = TRBrace then close_obj stk else None)
     | [] \<Rightarrow> None)"

fun parse_step :: "pst \<Rightarrow> frame list \<Rightarrow> tok \<Rightarrow> (pst \<times> frame list) option" where
  "parse_step (PValue c) stk t = parse_value c stk t"
| "parse_step (PKey c) stk t = parse_key c stk t"
| "parse_step PColon stk t = (if t = TColon then Some (PValue False, stk) else None)"
| "parse_step PAfter stk t = parse_after stk t"
| "parse_step (PDone v) stk t = None"

fun parse_toks :: "pst \<Rightarrow> frame list \<Rightarrow> tok list \<Rightarrow> json option" where
  "parse_toks st stk [] = (case st of PDone v \<Rightarrow> Some v | _ \<Rightarrow> None)"
| "parse_toks st stk (t # ts) =
    (case parse_step st stk t of None \<Rightarrow> None | Some (st', stk') \<Rightarrow> parse_toks st' stk' ts)"

text \<open>\<^verbatim>\<open>JSON.parse(s)\<close>; \<open>None\<close> is the \<^verbatim>\<open>SyntaxError\<close> it throws.\<close>

definition JSON_parse :: "string \<Rightarrow> json option" where
  "JSON_parse s =
    (case lex LStart s of None \<Rightarrow> None | Some ts \<Rightarrow> parse_toks (PValue False) [] ts)"

subsection \<open>\<^verbatim>\<open>JSON.stringify\<close>\<close>

definition hex_digit :: "nat \<Rightarrow> char" where
  "hex_digit n = (if n < 10 then char_of (48 + n) else char_of (87 + n))"

definition esc_char :: "char \<Rightarrow> string" where
  "esc_char c =
    (if c = CHR 0x22 then [CHR 0x5C, CHR 0x22]
     else if c = CHR 0x5C then [CHR 0x5C, CHR 0x5C]
     else if c = CHR 0x08 then [CHR 0x5C, CHR ''b'']
     else if c = CHR 0x0C then [CHR 0x5C, CHR ''f'']
     else if c = CHR 0x0A then [CHR 0x5C, CHR ''n'']
     else if c = CHR 0x0D then [CHR 0x5C, CHR ''r'']
     else if c = CHR 0x09 then [CHR 0x5C, CHR ''t'']
     else if (of_char c :: nat) < 32 then
       [CHR 0x5C, CHR ''u'', CHR ''0'', CHR ''0'',
        hex_digit (of_char c div 16), hex_digit (of_char c mod 16)]
     else [c])"

definition quote :: "string \<Rightarrow> string" where
  "quote s = CHR 0x22 # concat (map esc_char s) @ [CHR 0x22]"

fun dec_nat :: "nat \<Rightarrow> string" where
  "dec_nat n = (if n < 10 then [char_of (48 + n)] else dec_nat (n div 10) @ [char_of (48 + n mod 10)])"

declare dec_nat.simps [simp del]

definition dec_int :: "int \<Rightarrow> string" where
  "dec_int i = (if i < 0 then CHR ''-'' # dec_nat (nat (- i)) else dec_nat (nat i))"

fun commas :: "string list \<Rightarrow> string" where
  "commas [] = []"
| "commas [s] = s"
| "commas (s # t # ss) = s @ CHR '','' # commas (t # ss)"

fun JSON_stringify :: "json \<Rightarrow> string" where
  "JSON_stringify JNull = ''null''"
| "JSON_stringify (JBool b) = (if b then ''true'' else ''false'')"
| "JSON_stringify (JNum n) = dec_int n"
| "JSON_stringify (JStr s) = quote s"
| "JSON_stringify (JArr xs) = CHR ''['' # commas (map JSON_stringify xs) @ '']''"
| "JSON_stringify (JObj fs) =
    CHR ''{'' # commas (map (\<lambda>(k, v). quote k @ CHR '':'' # JSON_stringify v) fs) @ ''}''"

subsection \<open>Property reads, truthiness, comparison\<close>

text \<open>
  A JavaScript value read from a parsed record is a JSON value or \<^verbatim>\<open>undefined\<close>.
  \<open>js_prop v k\<close> is \<^verbatim>\<open>v.k\<close>: it throws a \<^verbatim>\<open>TypeError\<close> (\<open>None\<close>) on
  \<^verbatim>\<open>null\<close> and \<^verbatim>\<open>undefined\<close>, gives the property of an object, and
  \<^verbatim>\<open>undefined\<close> on every other value (none of the keys the code reads is a property
  of a string, a number, a boolean or an array). \<open>opt_prop v k\<close> is \<^verbatim>\<open>v?.k\<close>.
\<close>

datatype jsval = Undefined | Val json

fun js_prop :: "jsval \<Rightarrow> string \<Rightarrow> jsval option" where
  "js_prop Undefined k = None"
| "js_prop (Val JNull) k = None"
| "js_prop (Val (JObj fs)) k = Some (case map_of fs k of None \<Rightarrow> Undefined | Some v \<Rightarrow> Val v)"
| "js_prop (Val v) k = Some Undefined"

definition opt_prop :: "jsval \<Rightarrow> string \<Rightarrow> jsval" where
  "opt_prop v k = (case js_prop v k of None \<Rightarrow> Undefined | Some r \<Rightarrow> r)"

fun truthy :: "jsval \<Rightarrow> bool" where
  "truthy Undefined = False"
| "truthy (Val JNull) = False"
| "truthy (Val (JBool b)) = b"
| "truthy (Val (JNum n)) = (n \<noteq> 0)"
| "truthy (Val (JStr s)) = (s \<noteq> [])"
| "truthy (Val (JArr xs)) = True"
| "truthy (Val (JObj fs)) = True"

text \<open>
  \<^verbatim>\<open>v > 0\<close>. A number compares by value and a boolean as 0 or 1. A string is converted
  with \<^verbatim>\<open>ToNumber\<close>: the model converts a string of decimal digits, and takes every
  other string, every array and every object as \<^verbatim>\<open>NaN\<close>. No proof below unfolds
  \<open>gt_zero\<close>.
\<close>

fun gt_zero :: "jsval \<Rightarrow> bool" where
  "gt_zero (Val (JNum n)) = (0 < n)"
| "gt_zero (Val (JBool b)) = b"
| "gt_zero (Val (JStr s)) = (s \<noteq> [] \<and> those (map digit_val s) \<noteq> None \<and> (\<exists>c \<in> set s. c \<noteq> CHR ''0''))"
| "gt_zero v = False"

text \<open>
  \<^verbatim>\<open>Set.prototype.has\<close> compares with SameValueZero: primitives by value, objects and
  arrays by identity. Every \<^verbatim>\<open>JSON.parse\<close> builds fresh objects, so an object or array
  is never found in a set filled from another parse.
\<close>

fun is_primitive :: "json \<Rightarrow> bool" where
  "is_primitive (JArr xs) = False"
| "is_primitive (JObj fs) = False"
| "is_primitive v = True"

fun set_has :: "json set \<Rightarrow> jsval \<Rightarrow> bool" where
  "set_has S Undefined = False"
| "set_has S (Val v) = (is_primitive v \<and> v \<in> S)"


section \<open>The pruner\<close>

subsection \<open>Classifying a line\<close>

definition MSG_TYPES :: "jsval set" where
  "MSG_TYPES = {Val (JStr ''user''), Val (JStr ''assistant''), Val (JStr ''system'')}"

text \<open>
  \<^verbatim>\<open>JSON.parse(ln).type\<close> inside \<^verbatim>\<open>try\<close>: \<open>None\<close> when the parse or the
  property read throws.
\<close>

definition type_of_line :: "string \<Rightarrow> jsval option" where
  "type_of_line line = (case JSON_parse line of None \<Rightarrow> None | Some obj \<Rightarrow> js_prop (Val obj) ''type'')"

text \<open>
  \<^verbatim>\<open>MSG_TYPES.has((() => { try { return JSON.parse(ln).type; } catch { return ""; } })())\<close>
\<close>

definition isMsg :: "string \<Rightarrow> bool" where
  "isMsg line = (case type_of_line line of None \<Rightarrow> Val (JStr []) \<in> MSG_TYPES | Some t \<Rightarrow> t \<in> MSG_TYPES)"

definition isAssistant :: "string \<Rightarrow> bool" where
  "isAssistant line = (type_of_line line = Some (Val (JStr ''assistant'')))"

subsection \<open>Surviving invocation ids\<close>

text \<open>
  \<^verbatim>\<open>obj.content.forEach(item => { if (item.type === "tool_use" && item.id) keptToolUseIds.add(item.id) })\<close>.
  Reading \<^verbatim>\<open>item.type\<close> of a \<^verbatim>\<open>null\<close> item throws; the exception leaves the
  \<^verbatim>\<open>forEach\<close> and is caught by the enclosing \<^verbatim>\<open>try\<close>, so the ids added so far
  stay and the remaining items are not visited.
\<close>

fun add_tool_use_ids :: "json list \<Rightarrow> json set \<Rightarrow> json set" where
  "add_tool_use_ids [] S = S"
| "add_tool_use_ids (item # items) S =
    (case js_prop (Val item) ''type'' of
       None \<Rightarrow> S
     | Some t \<Rightarrow>
        (if t = Val (JStr ''tool_use'') then
           (case js_prop (Val item) ''id'' of
              Some (Val i) \<Rightarrow>
                if truthy (Val i) then add_tool_use_ids items (insert i S)
                else add_tool_use_ids items S
            | _ \<Rightarrow> add_tool_use_ids items S)
         else add_tool_use_ids items S))"

text \<open>
  The body of \<^verbatim>\<open>if (obj.type === "assistant") { if (Array.isArray(obj.content)) ... }\<close>
  with its \<^verbatim>\<open>try\<close>, for one line.
\<close>

definition line_tool_use_ids :: "string \<Rightarrow> json set \<Rightarrow> json set" where
  "line_tool_use_ids line S =
    (case JSON_parse line of
       None \<Rightarrow> S
     | Some obj \<Rightarrow>
        (case js_prop (Val obj) ''type'' of
           None \<Rightarrow> S
         | Some t \<Rightarrow>
            if t = Val (JStr ''assistant'') then
              (case js_prop (Val obj) ''content'' of
                 Some (Val (JArr items)) \<Rightarrow> add_tool_use_ids items S
               | _ \<Rightarrow> S)
            else S))"

text \<open>
  The orphan test of the output pass:
  \<^verbatim>\<open>let shouldKeep = true; try { const obj = JSON.parse(ln);
  if (obj.type === "tool_result" && obj.tool_use_id) shouldKeep = keptToolUseIds.has(obj.tool_use_id) } catch {}\<close>
\<close>

definition shouldKeep :: "json set \<Rightarrow> string \<Rightarrow> bool" where
  "shouldKeep S line =
    (case JSON_parse line of
       None \<Rightarrow> True
     | Some obj \<Rightarrow>
        (case js_prop (Val obj) ''type'' of
           None \<Rightarrow> True
         | Some t \<Rightarrow>
            if t = Val (JStr ''tool_result'') then
              (case js_prop (Val obj) ''tool_use_id'' of
                 None \<Rightarrow> True
               | Some i \<Rightarrow> if truthy i then set_has S i else True)
            else True))"

subsection \<open>The usage counter\<close>

text \<open>\<^verbatim>\<open>obj.usage || obj.message?.usage\<close>; \<open>None\<close> when \<^verbatim>\<open>obj\<close> is \<^verbatim>\<open>null\<close>.\<close>

definition usageObj :: "json \<Rightarrow> jsval option" where
  "usageObj obj =
    (case js_prop (Val obj) ''usage'' of
       None \<Rightarrow> None
     | Some u \<Rightarrow>
        if truthy u then Some u
        else (case js_prop (Val obj) ''message'' of
                None \<Rightarrow> None
              | Some m \<Rightarrow> Some (opt_prop m ''usage'')))"

text \<open>
  \<^verbatim>\<open>usageObj?.cache_read_input_tokens\<close> for the record on a line; \<open>None\<close> when the
  \<^verbatim>\<open>try\<close> block is left by an exception before.
\<close>

definition cacheTokens :: "string \<Rightarrow> jsval option" where
  "cacheTokens line =
    (case JSON_parse line of
       None \<Rightarrow> None
     | Some obj \<Rightarrow>
        (case usageObj obj of
           None \<Rightarrow> None
         | Some u \<Rightarrow> Some (opt_prop u ''cache_read_input_tokens'')))"

text \<open>
  \<^verbatim>\<open>usageObj?.cache_read_input_tokens && usageObj.cache_read_input_tokens > 0\<close>
  for the line, inside \<^verbatim>\<open>try\<close>.
\<close>

definition cacheBearing :: "string \<Rightarrow> bool" where
  "cacheBearing line =
    (case cacheTokens line of None \<Rightarrow> False | Some v \<Rightarrow> truthy v \<and> gt_zero v)"

text \<open>
  \<^verbatim>\<open>let lastNonZeroCacheLineIndex = -1; lines.forEach((ln, i) => { ... lastNonZeroCacheLineIndex = i ... })\<close>
\<close>

definition lastNonZeroCacheLineIndex :: "string list \<Rightarrow> int" where
  "lastNonZeroCacheLineIndex lines =
    foldl (\<lambda>last (i, line). if cacheBearing line then int i else last) (- 1) (enumerate 0 lines)"

text \<open>
  \<^verbatim>\<open>usageObj.cache_read_input_tokens = 0\<close> on a value: an object gets the property
  (an existing property keeps its place); an array takes the assignment but
  \<^verbatim>\<open>JSON.stringify\<close> does not print it; \<^verbatim>\<open>null\<close>, \<^verbatim>\<open>undefined\<close>
  and, in module code, which is strict, a primitive throw (\<open>None\<close>).
\<close>

fun assign_zero :: "jsval \<Rightarrow> json option" where
  "assign_zero (Val (JObj us)) = Some (JObj (obj_set ''cache_read_input_tokens'' (JNum 0) us))"
| "assign_zero (Val (JArr xs)) = Some (JArr xs)"
| "assign_zero v = None"

text \<open>
  \<^verbatim>\<open>const usageObj = obj.usage || obj.message?.usage; usageObj.cache_read_input_tokens = 0\<close>:
  the record after the assignment, which changes the object that \<^verbatim>\<open>usageObj\<close> refers
  to inside \<^verbatim>\<open>obj\<close>.
\<close>

definition zero_message_usage :: "(string \<times> json) list \<Rightarrow> json option" where
  "zero_message_usage fs =
    (case map_of fs ''message'' of
       Some (JObj ms) \<Rightarrow>
        (case map_of ms ''usage'' of
           Some u \<Rightarrow>
             map_option (\<lambda>u'. JObj (obj_set ''message'' (JObj (obj_set ''usage'' u' ms)) fs))
               (assign_zero (Val u))
         | None \<Rightarrow> None)
     | _ \<Rightarrow> None)"

definition zero_cache :: "json \<Rightarrow> json option" where
  "zero_cache obj =
    (case obj of
       JObj fs \<Rightarrow>
        (case map_of fs ''usage'' of
           Some u \<Rightarrow>
             if truthy (Val u)
             then map_option (\<lambda>u'. JObj (obj_set ''usage'' u' fs)) (assign_zero (Val u))
             else zero_message_usage fs
         | None \<Rightarrow> zero_message_usage fs)
     | _ \<Rightarrow> None)"

text \<open>
  \<^verbatim>\<open>try { const obj = JSON.parse(ln); ...; return JSON.stringify(obj) } catch {} return ln\<close>
\<close>

definition zero_line :: "string \<Rightarrow> string" where
  "zero_line line =
    (case JSON_parse line of
       None \<Rightarrow> line
     | Some obj \<Rightarrow> (case zero_cache obj of None \<Rightarrow> line | Some obj' \<Rightarrow> JSON_stringify obj'))"

text \<open>
  \<^verbatim>\<open>const processedLines = lines.map((ln, i) => { if (i === lastNonZeroCacheLineIndex) {...} return ln })\<close>
\<close>

definition processedLines :: "string list \<Rightarrow> string list" where
  "processedLines lines =
    map (\<lambda>(i, line). if int i = lastNonZeroCacheLineIndex lines then zero_line line else line)
      (enumerate 0 lines)"

subsection \<open>Keep by assistant count: \<^verbatim>\<open>pruneSessionLines\<close>\<close>

record prune_result =
  outLines :: "string list"
  kept :: nat
  dropped :: nat

record session_result = prune_result +
  assistantCount :: nat

text \<open>
  Pass 1: \<^verbatim>\<open>msgIndexes\<close> and \<^verbatim>\<open>assistantIndexes\<close>, skipping line 0.
  \<^verbatim>\<open>const { type } = JSON.parse(ln)\<close> throws on \<^verbatim>\<open>null\<close> as the property read does.
\<close>

definition pass1_step :: "nat list \<times> nat list \<Rightarrow> nat \<times> string \<Rightarrow> nat list \<times> nat list" where
  "pass1_step s p =
    (case s of (msgIndexes, assistantIndexes) \<Rightarrow>
     case p of (i, line) \<Rightarrow>
      if i = 0 then s
      else (case type_of_line line of
              None \<Rightarrow> s
            | Some t \<Rightarrow>
               if t \<in> MSG_TYPES then
                 (msgIndexes @ [i],
                  if t = Val (JStr ''assistant'') then assistantIndexes @ [i] else assistantIndexes)
               else s))"

definition msgIndexes :: "string list \<Rightarrow> nat list" where
  "msgIndexes lines = fst (foldl pass1_step ([], []) (enumerate 0 lines))"

definition assistantIndexes :: "string list \<Rightarrow> nat list" where
  "assistantIndexes lines = snd (foldl pass1_step ([], []) (enumerate 0 lines))"

text \<open>
  \<^verbatim>\<open>let cutFrom = 0; if (assistantIndexes.length > keepNSafe) cutFrom = assistantIndexes[assistantIndexes.length - keepNSafe]\<close>.
  Reading an array past its end gives \<^verbatim>\<open>undefined\<close>, here \<open>None\<close>; it happens
  exactly when \<^verbatim>\<open>keepNSafe\<close> is 0. A comparison \<^verbatim>\<open>idx >= undefined\<close> is false.
\<close>

definition array_get :: "'a list \<Rightarrow> int \<Rightarrow> 'a option" where
  "array_get xs i = (if 0 \<le> i \<and> i < int (length xs) then Some (xs ! nat i) else None)"

definition cutFrom :: "string list \<Rightarrow> int \<Rightarrow> nat option" where
  "cutFrom lines keepN =
    (let keepNSafe = max 0 keepN; a = assistantIndexes lines
     in if int (length a) > keepNSafe then array_get a (int (length a) - keepNSafe) else Some 0)"

fun ge_cut :: "nat \<Rightarrow> nat option \<Rightarrow> bool" where
  "ge_cut idx None = False"
| "ge_cut idx (Some c) = (c \<le> idx)"

text \<open>Pass 2: the ids of the \<^verbatim>\<open>tool_use\<close> items of the assistant records that are kept.\<close>

definition pass2_step :: "nat option \<Rightarrow> json set \<Rightarrow> nat \<times> string \<Rightarrow> json set" where
  "pass2_step cf S p =
    (case p of (idx, line) \<Rightarrow>
      if idx = 0 then S
      else if isAssistant line \<and> ge_cut idx cf then line_tool_use_ids line S else S)"

definition keptToolUseIds :: "string list \<Rightarrow> nat option \<Rightarrow> json set" where
  "keptToolUseIds lines cf = foldl (pass2_step cf) {} (enumerate 0 lines)"

text \<open>Pass 3: the output, over \<^verbatim>\<open>processedLines\<close>.\<close>

definition pass3_step :: "nat option \<Rightarrow> json set \<Rightarrow> prune_result \<Rightarrow> nat \<times> string \<Rightarrow> prune_result" where
  "pass3_step cf S r p =
    (case p of (idx, line) \<Rightarrow>
      if idx = 0 then r
      else if isMsg line then
        (if ge_cut idx cf then r\<lparr>kept := kept r + 1, outLines := outLines r @ [line]\<rparr>
         else r\<lparr>dropped := dropped r + 1\<rparr>)
      else if shouldKeep S line then r\<lparr>outLines := outLines r @ [line]\<rparr>
      else r)"

definition pruneSessionLines :: "string list \<Rightarrow> int \<Rightarrow> session_result" where
  "pruneSessionLines lines keepN =
    (let cf = cutFrom lines keepN;
         S = keptToolUseIds lines cf;
         r0 = \<lparr>outLines = (if length lines > 0 then [lines ! 0] else []), kept = 0, dropped = 0\<rparr>;
         r = foldl (pass3_step cf S) r0 (enumerate 0 (processedLines lines))
     in prune_result.extend r \<lparr>assistantCount = length (assistantIndexes lines)\<rparr>)"

subsection \<open>Keep from a boundary: \<^verbatim>\<open>pruneToBoundary\<close>\<close>

definition boundary_ids_step :: "int \<Rightarrow> json set \<Rightarrow> nat \<times> string \<Rightarrow> json set" where
  "boundary_ids_step b S p =
    (case p of (idx, line) \<Rightarrow>
      if idx = 0 then S
      else if int idx \<ge> b then line_tool_use_ids line S else S)"

definition boundaryToolUseIds :: "string list \<Rightarrow> int \<Rightarrow> json set" where
  "boundaryToolUseIds lines b = foldl (boundary_ids_step b) {} (enumerate 0 lines)"

definition boundary_out_step :: "int \<Rightarrow> json set \<Rightarrow> prune_result \<Rightarrow> nat \<times> string \<Rightarrow> prune_result" where
  "boundary_out_step b S r p =
    (case p of (idx, line) \<Rightarrow>
      if idx = 0 then r
      else if int idx \<ge> b then
        (if isMsg line then r\<lparr>outLines := outLines r @ [line], kept := kept r + 1\<rparr>
         else if shouldKeep S line then r\<lparr>outLines := outLines r @ [line]\<rparr>
         else r)
      else if isMsg line then r\<lparr>dropped := dropped r + 1\<rparr>
      else r)"

definition pruneToBoundary :: "string list \<Rightarrow> int \<Rightarrow> prune_result" where
  "pruneToBoundary lines boundaryLineNumber =
    (let r0 = \<lparr>outLines = (if length lines > 0 then [lines ! 0] else []), kept = 0, dropped = 0\<rparr>;
         S = boundaryToolUseIds lines boundaryLineNumber
     in foldl (boundary_out_step boundaryLineNumber S) r0 (enumerate 0 (processedLines lines)))"

section \<open>The boundary detector\<close>

subsection \<open>Strings\<close>










subsection \<open>Retention in double precision\<close>






subsection \<open>\<^verbatim>\<open>detectBoundaries\<close>\<close>

datatype boundary_type = Intent | GitCommit

record Boundary =
  lineNumber :: nat
  type :: boundary_type
  description :: string
  timestamp :: "string option"
  retentionPercentage :: "int option"
  characterCount :: int
  intent :: "string option"


text \<open>\<^verbatim>\<open>lines.join('\n').length\<close>\<close>

definition totalChars :: "string list \<Rightarrow> nat" where
  "totalChars lines = sum_list (map length lines) + (length lines - 1)"











section \<open>Notions the properties are stated with\<close>






text \<open>Which numbered lines the id passes read.\<close>

definition msg1 :: "nat \<times> string \<Rightarrow> bool" where
  "msg1 p = (fst p \<noteq> 0 \<and> isMsg (snd p))"

definition asst1 :: "nat \<times> string \<Rightarrow> bool" where
  "asst1 p = (fst p \<noteq> 0 \<and> isAssistant (snd p))"



text \<open>
  The one line that \<open>processedLines\<close> rewrites is printed by \<open>JSON_stringify\<close> and read
  again by the output pass. \<open>restringify_ok\<close> says that the printed record parses back to
  the record that was printed.
\<close>

definition restringify_ok :: "string \<Rightarrow> bool" where
  "restringify_ok line =
    (case JSON_parse line of
       None \<Rightarrow> True
     | Some obj \<Rightarrow>
        (case zero_cache obj of
           None \<Rightarrow> True
         | Some obj' \<Rightarrow> JSON_parse (JSON_stringify obj') = Some obj'))"


section \<open>The output passes in closed form\<close>

text \<open>
  Which numbered lines the output pass of \<open>pruneSessionLines\<close> appends, counts as kept and
  counts as dropped.
\<close>

definition keep3 :: "nat option \<Rightarrow> json set \<Rightarrow> nat \<times> string \<Rightarrow> bool" where
  "keep3 cf S p = (case p of (idx, line) \<Rightarrow>
     idx \<noteq> 0 \<and> (if isMsg line then ge_cut idx cf else shouldKeep S line))"

definition kept3 :: "nat option \<Rightarrow> nat \<times> string \<Rightarrow> bool" where
  "kept3 cf p = (case p of (idx, line) \<Rightarrow> idx \<noteq> 0 \<and> isMsg line \<and> ge_cut idx cf)"

definition dropped3 :: "nat option \<Rightarrow> nat \<times> string \<Rightarrow> bool" where
  "dropped3 cf p = (case p of (idx, line) \<Rightarrow> idx \<noteq> 0 \<and> isMsg line \<and> \<not> ge_cut idx cf)"

text \<open>The same for \<open>pruneToBoundary\<close>.\<close>

definition keepB :: "int \<Rightarrow> json set \<Rightarrow> nat \<times> string \<Rightarrow> bool" where
  "keepB b S p = (case p of (idx, line) \<Rightarrow>
     idx \<noteq> 0 \<and> int idx \<ge> b \<and> (isMsg line \<or> shouldKeep S line))"

definition keptB :: "int \<Rightarrow> nat \<times> string \<Rightarrow> bool" where
  "keptB b p = (case p of (idx, line) \<Rightarrow> idx \<noteq> 0 \<and> int idx \<ge> b \<and> isMsg line)"

definition droppedB :: "int \<Rightarrow> nat \<times> string \<Rightarrow> bool" where
  "droppedB b p = (case p of (idx, line) \<Rightarrow> idx \<noteq> 0 \<and> int idx < b \<and> isMsg line)"

text \<open>
  The offset of line \<open>i\<close>: \<open>offset lines 0 = 0\<close> and
  \<open>offset lines (i + 1) = offset lines i + length (lines ! i) + 1\<close>.
\<close>

definition offset :: "string list \<Rightarrow> nat \<Rightarrow> nat" where
  "offset lines i = sum_list (map (\<lambda>l. length l + 1) (take i lines))"





section \<open>Sample transcripts\<close>


abbreviation T_user :: string where
  \<open>T_user \<equiv> ''{"type":"user"}''\<close>


abbreviation T_cache5 :: string where
  \<open>T_cache5 \<equiv> ''{"usage":{"cache_read_input_tokens":5}}''\<close>












text \<open>A head whose record bears the last positive counter.\<close>

abbreviation T_head_cache :: "string list" where
  "T_head_cache \<equiv> [T_cache5, T_user]"









section \<open>Properties of the pruner\<close>

subsection \<open>The folds\<close>

lemma pass3_step_eq:
  "pass3_step cf S r p =
     r\<lparr>outLines := outLines r @ (if keep3 cf S p then [snd p] else []),
       kept := kept r + (if kept3 cf p then 1 else 0),
       dropped := dropped r + (if dropped3 cf p then 1 else 0)\<rparr>"
  by (cases p) (simp add: pass3_step_def keep3_def kept3_def dropped3_def)

lemma pass3_fold:
  "foldl (pass3_step cf S) r ps =
     r\<lparr>outLines := outLines r @ map snd (filter (keep3 cf S) ps),
       kept := kept r + length (filter (kept3 cf) ps),
       dropped := dropped r + length (filter (dropped3 cf) ps)\<rparr>"
  by (induction ps arbitrary: r) (simp_all add: pass3_step_eq)

lemma boundary_out_step_eq:
  "boundary_out_step b S r p =
     r\<lparr>outLines := outLines r @ (if keepB b S p then [snd p] else []),
       kept := kept r + (if keptB b p then 1 else 0),
       dropped := dropped r + (if droppedB b p then 1 else 0)\<rparr>"
  by (cases p) (simp add: boundary_out_step_def keepB_def keptB_def droppedB_def)

lemma boundary_fold:
  "foldl (boundary_out_step b S) r ps =
     r\<lparr>outLines := outLines r @ map snd (filter (keepB b S) ps),
       kept := kept r + length (filter (keptB b) ps),
       dropped := dropped r + length (filter (droppedB b) ps)\<rparr>"
  by (induction ps arbitrary: r) (simp_all add: boundary_out_step_eq)

lemma outLines_pruneSessionLines:
  "outLines (pruneSessionLines lines keepN) =
     take 1 lines @ map snd (filter (keep3 (cutFrom lines keepN)
        (keptToolUseIds lines (cutFrom lines keepN))) (enumerate 0 (processedLines lines)))"
  by (cases lines) (simp_all add: pruneSessionLines_def Let_def pass3_fold prune_result.defs)

lemma outLines_pruneToBoundary:
  "outLines (pruneToBoundary lines b) =
     take 1 lines @ map snd (filter (keepB b (boundaryToolUseIds lines b))
        (enumerate 0 (processedLines lines)))"
  by (cases lines) (simp_all add: pruneToBoundary_def Let_def boundary_fold)

subsection \<open>The rewritten line\<close>

lemma map_of_obj_set: "map_of (obj_set k v fs) = (map_of fs)(k \<mapsto> v)"
  by (induction fs) (auto simp: fun_eq_iff)









lemma enumerate_nth_form:
  "enumerate k xs = map (\<lambda>i. (i, xs ! (i - k))) [k..<k + length xs]"
  by (rule nth_equalityI) (simp_all add: nth_enumerate_eq)

lemma filter_enumerate:
  "filter Q (enumerate 0 xs) = map (\<lambda>i. (i, xs ! i)) (filter (\<lambda>i. Q (i, xs ! i)) [0..<length xs])"
  by (simp add: enumerate_nth_form filter_map comp_def)

lemma filter_from_1:
  assumes "\<not> Q 0"
  shows "filter Q [0..<n] = filter Q [1..<n]"
proof (cases n)
  case 0 then show ?thesis by simp
next
  case (Suc m)
  have "[0..<Suc m] = 0 # [1..<Suc m]" by (simp add: upt_rec)
  with assms Suc show ?thesis by simp
qed

lemma last_snoc:
  "lastNonZeroCacheLineIndex (xs @ [x]) =
     (if cacheBearing x then int (length xs) else lastNonZeroCacheLineIndex xs)"
  by (simp add: lastNonZeroCacheLineIndex_def enumerate_append_eq)

lemma last_Nil [simp]: "lastNonZeroCacheLineIndex [] = - 1"
  by (simp add: lastNonZeroCacheLineIndex_def)

lemma last_range: "- 1 \<le> lastNonZeroCacheLineIndex xs \<and> lastNonZeroCacheLineIndex xs < int (length xs)"
  by (induction xs rule: rev_induct) (auto simp: last_snoc)

lemma last_none:
  "lastNonZeroCacheLineIndex xs = - 1 \<longleftrightarrow> (\<forall>x \<in> set xs. \<not> cacheBearing x)"
  by (induction xs rule: rev_induct) (auto simp: last_snoc)









subsection \<open>The output by line index\<close>















subsection \<open>The index and id passes\<close>

lemma isMsg_iff: "isMsg line \<longleftrightarrow> (\<exists>t \<in> MSG_TYPES. type_of_line line = Some t)"
  by (auto simp: isMsg_def MSG_TYPES_def split: option.splits)


lemma pass1_step_eq:
  "pass1_step (m, a) p =
     (m @ (if msg1 p then [fst p] else []), a @ (if asst1 p then [fst p] else []))"
  by (cases p)
     (auto simp: pass1_step_def msg1_def asst1_def isMsg_iff isAssistant_def MSG_TYPES_def
           split: option.splits)

lemma pass1_fold:
  "foldl pass1_step (m, a) ps =
     (m @ map fst (filter msg1 ps), a @ map fst (filter asst1 ps))"
  by (induction ps arbitrary: m a) (simp_all add: pass1_step_eq)

lemma assistantIndexes_eq:
  "assistantIndexes lines = filter (\<lambda>i. isAssistant (lines ! i)) [1..<length lines]"
proof -
  have "filter (\<lambda>i. asst1 (i, lines ! i)) [0..<length lines]
      = filter (\<lambda>i. asst1 (i, lines ! i)) [1..<length lines]"
    by (rule filter_from_1) (simp add: asst1_def)
  moreover have "filter (\<lambda>i. asst1 (i, lines ! i)) [1..<length lines]
      = filter (\<lambda>i. isAssistant (lines ! i)) [1..<length lines]"
    by (rule filter_cong) (simp_all add: asst1_def)
  ultimately show ?thesis
    by (simp add: assistantIndexes_def pass1_fold filter_enumerate comp_def)
qed

lemma msgIndexes_eq:
  "msgIndexes lines = filter (\<lambda>i. isMsg (lines ! i)) [1..<length lines]"
proof -
  have "filter (\<lambda>i. msg1 (i, lines ! i)) [0..<length lines]
      = filter (\<lambda>i. msg1 (i, lines ! i)) [1..<length lines]"
    by (rule filter_from_1) (simp add: msg1_def)
  moreover have "filter (\<lambda>i. msg1 (i, lines ! i)) [1..<length lines]
      = filter (\<lambda>i. isMsg (lines ! i)) [1..<length lines]"
    by (rule filter_cong) (simp_all add: msg1_def)
  ultimately show ?thesis
    by (simp add: msgIndexes_def pass1_fold filter_enumerate comp_def)
qed

lemma cutFrom_cases:
  "cutFrom lines keepN =
     (let a = assistantIndexes lines in
      if int (length a) \<le> keepN then Some 0
      else if keepN \<le> 0 then (if a = [] then Some 0 else None)
      else Some (a ! (length a - nat keepN)))"
  by (auto simp: cutFrom_def Let_def array_get_def max_def nat_diff_distrib)

lemma cutFrom_Some_is_assistant:
  assumes "cutFrom lines keepN = Some c" "c \<noteq> 0"
  shows "1 \<le> c \<and> c < length lines \<and> isAssistant (lines ! c)"
proof -
  let ?a = "assistantIndexes lines"
  from assms have "c \<in> set ?a"
    by (auto simp: cutFrom_cases Let_def split: if_splits)
  then show ?thesis by (auto simp: assistantIndexes_eq)
qed














subsection \<open>Filters over index ranges\<close>







subsection \<open>The outputs as filters of the processed lines\<close>











subsection \<open>Zeroing the counter\<close>

lemma truthy_opt_prop_object:
  assumes "truthy (opt_prop u k)"
  shows "\<exists>us. u = Val (JObj us)"
proof (cases u)
  case Undefined
  with assms show ?thesis by (simp add: opt_prop_def)
next
  case (Val v)
  with assms show ?thesis by (cases v) (simp_all add: opt_prop_def)
qed

lemma usageObj_Some_object:
  assumes "usageObj obj = Some (Val (JObj us))"
  shows "\<exists>fs. obj = JObj fs"
  using assms by (cases obj) (simp_all add: usageObj_def opt_prop_def)

lemma usageObj_JObj:
  "usageObj (JObj fs) =
     (if truthy (case map_of fs ''usage'' of None \<Rightarrow> Undefined | Some v \<Rightarrow> Val v)
      then Some (case map_of fs ''usage'' of None \<Rightarrow> Undefined | Some v \<Rightarrow> Val v)
      else Some (opt_prop (case map_of fs ''message'' of None \<Rightarrow> Undefined | Some v \<Rightarrow> Val v) ''usage''))"
  by (simp add: usageObj_def)

lemma opt_prop_object:
  assumes "opt_prop m k = Val (JObj us)"
  shows "\<exists>ms. m = Val (JObj ms) \<and> map_of ms k = Some (JObj us)"
proof (cases m)
  case Undefined
  with assms show ?thesis by (simp add: opt_prop_def)
next
  case (Val v)
  with assms show ?thesis
    by (cases v) (auto simp: opt_prop_def split: option.splits)
qed

lemma zero_cache_usage:
  assumes "usageObj obj = Some (Val (JObj us))"
  shows "\<exists>obj'. zero_cache obj = Some obj' \<and>
           usageObj obj' = Some (Val (JObj (obj_set ''cache_read_input_tokens'' (JNum 0) us)))"
proof -
  let ?us' = "obj_set ''cache_read_input_tokens'' (JNum 0) us"
  from usageObj_Some_object [OF assms] obtain fs where obj: "obj = JObj fs" by blast
  let ?U = "case map_of fs ''usage'' of None \<Rightarrow> Undefined | Some v \<Rightarrow> Val v"
  let ?M = "case map_of fs ''message'' of None \<Rightarrow> Undefined | Some v \<Rightarrow> Val v"
  show ?thesis
  proof (cases "truthy ?U")
    case True
    with assms obj have U: "map_of fs ''usage'' = Some (JObj us)"
      by (simp add: usageObj_JObj split: option.splits)
    let ?obj' = "JObj (obj_set ''usage'' (JObj ?us') fs)"
    from U obj have "zero_cache obj = Some ?obj'"
      by (simp add: zero_cache_def)
    moreover have "usageObj ?obj' = Some (Val (JObj ?us'))"
      by (simp add: usageObj_JObj map_of_obj_set)
    ultimately show ?thesis by blast
  next
    case False
    with assms obj have "opt_prop ?M ''usage'' = Val (JObj us)"
      by (simp add: usageObj_JObj)
    from opt_prop_object [OF this] obtain ms where
      M: "?M = Val (JObj ms)" and u: "map_of ms ''usage'' = Some (JObj us)" by blast
    from M have m: "map_of fs ''message'' = Some (JObj ms)"
      by (simp split: option.splits)
    let ?obj' = "JObj (obj_set ''message'' (JObj (obj_set ''usage'' (JObj ?us') ms)) fs)"
    from False m u have "zero_message_usage fs = Some ?obj'"
      by (simp add: zero_message_usage_def)
    with False obj have "zero_cache obj = Some ?obj'"
      by (simp add: zero_cache_def split: option.splits)
    moreover from False have "usageObj ?obj' = Some (Val (JObj ?us'))"
      by (simp add: usageObj_JObj map_of_obj_set opt_prop_def)
    ultimately show ?thesis by blast
  qed
qed

lemma zero_line_cache:
  assumes "cacheBearing line" "restringify_ok line"
  shows "cacheTokens (zero_line line) = Some (Val (JNum 0))"
proof -
  from assms(1) obtain obj u where p: "JSON_parse line = Some obj" and u: "usageObj obj = Some u"
      and t: "truthy (opt_prop u ''cache_read_input_tokens'')"
    by (auto simp: cacheBearing_def cacheTokens_def split: option.splits)
  from truthy_opt_prop_object [OF t] obtain us where us: "u = Val (JObj us)" by blast
  from zero_cache_usage [OF u [unfolded us]] obtain obj' where
    z: "zero_cache obj = Some obj'" and
    u': "usageObj obj' = Some (Val (JObj (obj_set ''cache_read_input_tokens'' (JNum 0) us)))"
    by blast
  from assms(2) p z have "JSON_parse (zero_line line) = Some obj'"
    by (simp add: restringify_ok_def zero_line_def)
  with u' show ?thesis
    by (simp add: cacheTokens_def opt_prop_def map_of_obj_set)
qed

lemma zero_line_not_cacheBearing:
  "cacheBearing line \<Longrightarrow> restringify_ok line \<Longrightarrow> \<not> cacheBearing (zero_line line)"
  by (simp add: zero_line_cache cacheBearing_def)

subsection \<open>Referents of the surviving tool results\<close>








subsection \<open>Pruning the output again\<close>







section \<open>Properties of the boundary detector\<close>

subsection \<open>Rounding to double precision\<close>















subsection \<open>Line offsets\<close>





lemma offset_0: "offset lines 0 = 0"
  by (simp add: offset_def)

lemma sum_list_take_le: "sum_list (map f (take i xs)) \<le> (sum_list (map f xs) :: nat)"
proof -
  have "sum_list (map f (take i xs @ drop i xs)) = sum_list (map f (take i xs)) + sum_list (map f (drop i xs))"
    by (simp only: map_append sum_list_append)
  then show ?thesis by simp
qed

lemma sum_list_length_Suc:
  "sum_list (map (\<lambda>l. length l + 1) xs) = sum_list (map length xs) + length xs"
  by (induction xs) simp_all

lemma offset_le_total:
  assumes "i < length lines"
  shows "offset lines i \<le> totalChars lines"
proof -
  have "offset lines i = sum_list (map length (take i lines)) + i"
    using assms unfolding offset_def sum_list_length_Suc by simp
  also have "\<dots> \<le> sum_list (map length lines) + (length lines - 1)"
    using assms sum_list_take_le [of length i lines] by (intro add_mono) simp_all
  finally show ?thesis by (simp add: totalChars_def)
qed

lemma total_pos:
  assumes "i < length lines" "lines ! i \<noteq> []"
  shows "0 < totalChars lines"
proof -
  from assms(1) have "length (lines ! i) \<in> set (map length lines)" by simp
  then have "length (lines ! i) \<le> sum_list (map length lines)"
    by (rule member_le_sum_list) simp
  moreover from assms(2) have "0 < length (lines ! i)" by simp
  ultimately have "0 < sum_list (map length lines)" by linarith
  then show ?thesis by (simp add: totalChars_def)
qed


subsection \<open>The two passes and the sort\<close>
















subsection \<open>Head preservation\<close>

text \<open>
  Claim C2. For every non-empty line list and every mode parameter, the first line of the
  output of \<open>pruneSessionLines\<close> and of \<open>pruneToBoundary\<close> is the first input line,
  unchanged, whatever that line holds: also when it is the last record with a positive
  \<^verbatim>\<open>cache_read_input_tokens\<close>.
\<close>

theorem head_preserved:
  "lines \<noteq> [] \<Longrightarrow>
     outLines (pruneSessionLines lines keepN) ! 0 = lines ! 0 \<and>
     outLines (pruneToBoundary lines b) ! 0 = lines ! 0"
  by (cases lines) (simp_all add: outLines_pruneSessionLines outLines_pruneToBoundary)

theorem head_preserved_witness:
  "T_head_cache \<noteq> [] \<and>
   lastNonZeroCacheLineIndex T_head_cache = 0 \<and>
   outLines (pruneSessionLines T_head_cache 1) ! 0 = T_cache5 \<and>
   outLines (pruneToBoundary T_head_cache 1) ! 0 = T_cache5"
proof -
  have c: "lastNonZeroCacheLineIndex T_head_cache = 0"
    by code_simp
  show ?thesis
    using c head_preserved [of T_head_cache 1 1] by simp
qed

subsection \<open>A boundary past the end\<close>



subsection \<open>Scope of the orphan filter\<close>



subsection \<open>Referential integrity\<close>




subsection \<open>The zeroed counter in the output\<close>




subsection \<open>Lines before the cut\<close>




subsection \<open>Keeping zero assistant turns\<close>




subsection \<open>Running keep-by-assistant-count twice\<close>




subsection \<open>The order of the boundaries\<close>




subsection \<open>The retention percentage\<close>





end
